theory Spec2Isabelle
  imports Complex_Main
begin

section \<open>Terms handed to the solver\<close>

text \<open>
  The module builds z3 terms and never inspects them.  \<open>arith\<close> stands for the values the
  source types as \<^verbatim>\<open>Union[ArithRef, float, int]\<close>: a Python number (\<open>PyInt\<close>, \<open>PyFloat\<close>)
  or an \<^verbatim>\<open>ArithRef\<close>; \<open>boolref\<close> stands for \<^verbatim>\<open>BoolRef\<close>.  \<open>ZReal n\<close> is
  \<^verbatim>\<open>z3.Real(n)\<close>, \<open>ZIf\<close>, \<open>ZAnd\<close>, \<open>ZNot\<close>, \<open>ZImplies\<close> are \<^verbatim>\<open>If\<close>, \<^verbatim>\<open>And\<close>,
  \<^verbatim>\<open>Not\<close>, \<^verbatim>\<open>Implies\<close>, and \<open>ZAdd\<close>, \<open>ZMul\<close>, \<open>ZLt\<close>, \<open>ZGe\<close>, \<open>ZEq\<close>, \<open>ZNe\<close> are the
  overloaded operators \<^verbatim>\<open>+\<close>, \<^verbatim>\<open>*\<close>, \<^verbatim>\<open><\<close>, \<^verbatim>\<open>>=\<close>, \<^verbatim>\<open>==\<close>, \<^verbatim>\<open>!=\<close>.  An operator
  applied to two Python numbers is computed by Python itself; the term then stands for
  that result and is not computed here.  A \<open>PyFloat\<close> carries the exact value of the float.
\<close>

datatype arith =
    PyInt int
  | PyFloat real
  | ZReal string
  | ZAdd arith arith
  | ZMul arith arith
  | ZIf boolref arith arith
and boolref =
    ZBool string
  | ZNot boolref
  | ZAnd boolref boolref
  | ZImplies boolref boolref
  | ZLt arith arith
  | ZGe arith arith
  | ZEq arith arith
  | ZNe arith arith

text \<open>The standard reading of these terms under an assignment to the declared symbols.\<close>

fun aval :: "(string \<Rightarrow> real) \<Rightarrow> (string \<Rightarrow> bool) \<Rightarrow> arith \<Rightarrow> real"
and bval :: "(string \<Rightarrow> real) \<Rightarrow> (string \<Rightarrow> bool) \<Rightarrow> boolref \<Rightarrow> bool" where
  "aval \<rho> \<beta> (PyInt i) = of_int i"
| "aval \<rho> \<beta> (PyFloat r) = r"
| "aval \<rho> \<beta> (ZReal x) = \<rho> x"
| "aval \<rho> \<beta> (ZAdd a b) = aval \<rho> \<beta> a + aval \<rho> \<beta> b"
| "aval \<rho> \<beta> (ZMul a b) = aval \<rho> \<beta> a * aval \<rho> \<beta> b"
| "aval \<rho> \<beta> (ZIf c a b) = (if bval \<rho> \<beta> c then aval \<rho> \<beta> a else aval \<rho> \<beta> b)"
| "bval \<rho> \<beta> (ZBool x) = \<beta> x"
| "bval \<rho> \<beta> (ZNot c) = (\<not> bval \<rho> \<beta> c)"
| "bval \<rho> \<beta> (ZAnd c d) = (bval \<rho> \<beta> c \<and> bval \<rho> \<beta> d)"
| "bval \<rho> \<beta> (ZImplies c d) = (bval \<rho> \<beta> c \<longrightarrow> bval \<rho> \<beta> d)"
| "bval \<rho> \<beta> (ZLt a b) = (aval \<rho> \<beta> a < aval \<rho> \<beta> b)"
| "bval \<rho> \<beta> (ZGe a b) = (aval \<rho> \<beta> a \<ge> aval \<rho> \<beta> b)"
| "bval \<rho> \<beta> (ZEq a b) = (aval \<rho> \<beta> a = aval \<rho> \<beta> b)"
| "bval \<rho> \<beta> (ZNe a b) = (aval \<rho> \<beta> a \<noteq> aval \<rho> \<beta> b)"

text \<open>\<^verbatim>\<open>isinstance(other, float) or isinstance(other, int)\<close>\<close>

fun isinstance_float :: "arith \<Rightarrow> bool" where
  "isinstance_float (PyFloat r) = True"
| "isinstance_float a = False"

fun isinstance_int :: "arith \<Rightarrow> bool" where
  "isinstance_int (PyInt i) = True"
| "isinstance_int a = False"

section \<open>Python strings of integers\<close>

text \<open>\<^verbatim>\<open>f"{n}"\<close> for an \<^verbatim>\<open>int\<close>: its decimal digits, with a leading minus sign below zero.\<close>

definition digit_char :: "nat \<Rightarrow> char" where
  "digit_char d = ''0123456789'' ! (d mod 10)"

function str_nat :: "nat \<Rightarrow> string" where
  "str_nat n = (if n < 10 then [digit_char n] else str_nat (n div 10) @ [digit_char (n mod 10)])"
  by pat_completeness auto
termination
  by (relation "measure (\<lambda>n. n)") auto

declare str_nat.simps [simp del]

definition str_int :: "int \<Rightarrow> string" where
  "str_int i = (if i < 0 then CHR ''-'' # str_nat (nat (- i)) else str_nat (nat i))"

section \<open>Errors\<close>

text \<open>
  The message of the assertion in \<^verbatim>\<open>verify\<close> is an f-string over the check result and
  \<^verbatim>\<open>str(self.vals)\<close>; the model keeps the two values it is rendered from.
\<close>

datatype CheckSatResult = sat | unsat | unknown

datatype message =
    NoMessage
  | UnableToCheck CheckSatResult "(boolref \<times> arith) list"

datatype error =
    AssertionError message
  | IndexError
  | TypeError

text \<open>\<^verbatim>\<open>xs[i]\<close>: a negative index counts from the end, an index out of range raises.\<close>

definition getitem :: "'a list \<Rightarrow> int \<Rightarrow> error + 'a" where
  "getitem xs i =
     (if 0 \<le> i \<and> i < int (length xs) then Inr (xs ! nat i)
      else if - int (length xs) \<le> i \<and> i < 0 then Inr (xs ! nat (int (length xs) + i))
      else Inl IndexError)"

section \<open>The backend\<close>

text \<open>
  Modelled from the spec: the class \<^verbatim>\<open>MySolver\<close> of \<^verbatim>\<open>my_solver.py\<close>, which the module
  imports.  It is an incremental constraint store: \<^verbatim>\<open>add\<close> registers a constraint in the
  current scope, \<^verbatim>\<open>push\<close> and \<^verbatim>\<open>pop\<close> save and restore the scope stack, \<^verbatim>\<open>check\<close>
  decides the constraints of the current scope stack.  \<open>asserted\<close> holds the constraints
  in force, oldest first, \<open>stack\<close> the saved checkpoints, innermost first, and \<open>calls\<close>
  records the order in which the four operations were called on this object.  What
  \<^verbatim>\<open>check\<close> answers is the solver engine's business: it is a parameter \<open>check\<close> of the
  model, a function of the constraints in force.
\<close>

datatype call = CallPush | CallAdd boolref | CallCheck | CallPop

record MySolver =
  asserted :: "boolref list"
  stack :: "boolref list list"
  calls :: "call list"

definition MySolver_init :: MySolver where
  "MySolver_init = \<lparr>asserted = [], stack = [], calls = []\<rparr>"

definition MySolver_add :: "boolref \<Rightarrow> MySolver \<Rightarrow> MySolver" where
  "MySolver_add c sv = sv\<lparr>asserted := asserted sv @ [c], calls := calls sv @ [CallAdd c]\<rparr>"

definition MySolver_push :: "MySolver \<Rightarrow> MySolver" where
  "MySolver_push sv = sv\<lparr>stack := asserted sv # stack sv, calls := calls sv @ [CallPush]\<rparr>"

definition MySolver_pop :: "MySolver \<Rightarrow> MySolver" where
  "MySolver_pop sv =
     (case stack sv of
        [] \<Rightarrow> sv\<lparr>calls := calls sv @ [CallPop]\<rparr>
      | saved # rest \<Rightarrow> sv\<lparr>asserted := saved, stack := rest, calls := calls sv @ [CallPop]\<rparr>)"

definition MySolver_check :: "(boolref list \<Rightarrow> CheckSatResult) \<Rightarrow> MySolver \<Rightarrow> CheckSatResult \<times> MySolver" where
  "MySolver_check check sv = (check (asserted sv), sv\<lparr>calls := calls sv @ [CallCheck]\<rparr>)"

section \<open>The state of the process\<close>

text \<open>
  \<open>Piecewise_id\<close> is the class attribute \<^verbatim>\<open>Piecewise.id\<close>.  Solver objects are shared by
  reference (an instance keeps the one it was given in \<^verbatim>\<open>self.s\<close>), so they live in a
  store \<open>solvers\<close>, and \<open>next_ref\<close> is the reference the next \<^verbatim>\<open>MySolver()\<close> gets.
  \<open>declared\<close> lists the names passed to \<^verbatim>\<open>z3.Real\<close>, in the order of the calls.
\<close>

type_synonym ref = nat

record world =
  Piecewise_id :: int
  solvers :: "ref \<Rightarrow> MySolver"
  next_ref :: ref
  declared :: "string list"

definition z3_Real :: "string \<Rightarrow> world \<Rightarrow> arith \<times> world" where
  "z3_Real n w = (ZReal n, w\<lparr>declared := declared w @ [n]\<rparr>)"

definition MySolver_new :: "world \<Rightarrow> ref \<times> world" where
  "MySolver_new w =
     (next_ref w, w\<lparr>solvers := (solvers w)(next_ref w := MySolver_init), next_ref := next_ref w + 1\<rparr>)"

text \<open>A method call \<^verbatim>\<open>s.m(...)\<close> on the solver object behind reference \<open>r\<close>.\<close>

definition on_solver :: "ref \<Rightarrow> (MySolver \<Rightarrow> MySolver) \<Rightarrow> world \<Rightarrow> world" where
  "on_solver r m w = w\<lparr>solvers := (solvers w)(r := m (solvers w r))\<rparr>"

section \<open>The class Piecewise\<close>

record Piecewise =
  self_s :: ref
  self_vals :: "(boolref \<times> arith) list"
  self_id :: int
  self_name :: string
  self_aux_id :: int
  self_val_def :: "arith option"

text \<open>\<^verbatim>\<open>__init__(self, s, name, vals)\<close>\<close>

definition Piecewise_init :: "ref \<Rightarrow> string \<Rightarrow> (boolref \<times> arith) list \<Rightarrow> world \<Rightarrow> Piecewise \<times> world" where
  "Piecewise_init s name vals w =
     (\<lparr>self_s = s, self_vals = vals, self_id = Piecewise_id w, self_name = name,
       self_aux_id = 0, self_val_def = None\<rparr>,
      w\<lparr>Piecewise_id := Piecewise_id w + 1\<rparr>)"

text \<open>
  A call \<^verbatim>\<open>Piecewise(...)\<close> with its positional arguments.  \<^verbatim>\<open>__init__\<close> has three
  parameters after \<^verbatim>\<open>self\<close> and no defaults, so any other number of arguments raises
  \<^verbatim>\<open>TypeError\<close> before the body runs.  The body is typed here, so three arguments are
  taken to be a solver, a string and a list of pairs, in this order.
\<close>

datatype pyarg = ArgSolver ref | ArgStr string | ArgVals "(boolref \<times> arith) list"

fun Piecewise_call :: "pyarg list \<Rightarrow> world \<Rightarrow> (error + Piecewise) \<times> world" where
  "Piecewise_call [ArgSolver s, ArgStr name, ArgVals vals] w =
     (case Piecewise_init s name vals w of (p, w') \<Rightarrow> (Inr p, w'))"
| "Piecewise_call args w = (Inl TypeError, w)"

text \<open>The loop of \<^verbatim>\<open>from_var\<close>, over the indices \<^verbatim>\<open>range(len(breaks)-1)\<close>.\<close>

fun from_var_loop ::
  "arith \<Rightarrow> arith list \<Rightarrow> arith option list \<Rightarrow> nat list \<Rightarrow> (boolref \<times> arith option) list
     \<Rightarrow> error + (boolref \<times> arith option) list" where
  "from_var_loop var breaks range_vals [] vals = Inr vals"
| "from_var_loop var breaks range_vals (i # is) vals =
     (case getitem breaks (int i) of Inl e \<Rightarrow> Inl e | Inr lo \<Rightarrow>
      case getitem breaks (int i + 1) of Inl e \<Rightarrow> Inl e | Inr hi \<Rightarrow>
      case getitem range_vals (int i + 1) of Inl e \<Rightarrow> Inl e | Inr v \<Rightarrow>
        from_var_loop var breaks range_vals is (vals @ [(ZAnd (ZGe var lo) (ZLt var hi), v)]))"

text \<open>Lines 49 to 57 of \<^verbatim>\<open>from_var\<close>: the list \<^verbatim>\<open>vals\<close> handed to the constructor.\<close>

definition from_var_vals ::
  "arith \<Rightarrow> arith list \<Rightarrow> arith option list \<Rightarrow> error + (boolref \<times> arith) list" where
  "from_var_vals var breaks range_vals =
     (if length range_vals \<noteq> length breaks + 1 then Inl (AssertionError NoMessage) else
      case getitem breaks 0 of Inl e \<Rightarrow> Inl e | Inr b0 \<Rightarrow>
      case getitem range_vals 0 of Inl e \<Rightarrow> Inl e | Inr v0 \<Rightarrow>
      case from_var_loop var breaks range_vals [0 ..< length breaks - 1] [(ZLt var b0, v0)] of
        Inl e \<Rightarrow> Inl e | Inr vals \<Rightarrow>
      case getitem breaks (- 1) of Inl e \<Rightarrow> Inl e | Inr bl \<Rightarrow>
      case getitem range_vals (- 1) of Inl e \<Rightarrow> Inl e | Inr vl \<Rightarrow>
        Inr (List.map_filter (\<lambda>(c, v). map_option (Pair c) v) (vals @ [(ZGe var bl, vl)])))"

text \<open>\<^verbatim>\<open>from_var(var, breaks, range_vals, s)\<close>, which ends in \<^verbatim>\<open>return Piecewise(s, vals)\<close>.\<close>

definition Piecewise_from_var ::
  "arith \<Rightarrow> arith list \<Rightarrow> arith option list \<Rightarrow> ref \<Rightarrow> world \<Rightarrow> (error + Piecewise) \<times> world" where
  "Piecewise_from_var var breaks range_vals s w =
     (case from_var_vals var breaks range_vals of
        Inl e \<Rightarrow> (Inl e, w)
      | Inr vals \<Rightarrow> Piecewise_call [ArgSolver s, ArgVals vals] w)"

text \<open>
  The names of the generated symbols: the f-strings \<^verbatim>\<open>f"auxPiecewiseVal_{self.id}"\<close>,
  \<^verbatim>\<open>f"auxPiecewiseMul_{self.name}_{self.id},{self.aux_id}"\<close> and
  \<^verbatim>\<open>f"auxPiecewiseAdd_{self.id},{self.aux_id}"\<close>.
\<close>

definition val_name :: "Piecewise \<Rightarrow> string" where
  "val_name self = ''auxPiecewiseVal_'' @ str_int (self_id self)"

definition mul_name :: "Piecewise \<Rightarrow> string" where
  "mul_name self =
     ''auxPiecewiseMul_'' @ self_name self @ ''_'' @ str_int (self_id self) @ '','' @ str_int (self_aux_id self)"

definition add_name :: "Piecewise \<Rightarrow> string" where
  "add_name self = ''auxPiecewiseAdd_'' @ str_int (self_id self) @ '','' @ str_int (self_aux_id self)"

text \<open>\<^verbatim>\<open>val(self)\<close>; the loop over \<^verbatim>\<open>self.vals\<close> is a \<open>fold\<close> over the world.\<close>

definition Piecewise_val :: "Piecewise \<Rightarrow> world \<Rightarrow> arith \<times> Piecewise \<times> world" where
  "Piecewise_val self w =
     (case self_val_def self of
        Some h \<Rightarrow> (h, self, w)
      | None \<Rightarrow>
          (case z3_Real (val_name self) w of (h, w1) \<Rightarrow>
             (h, self\<lparr>self_val_def := Some h\<rparr>,
              fold (\<lambda>(c, v). on_solver (self_s self) (MySolver_add (ZImplies c (ZEq h v))))
                (self_vals self) w1)))"

text \<open>\<^verbatim>\<open>__mul__(self, other)\<close>\<close>

definition Piecewise_mul :: "Piecewise \<Rightarrow> arith \<Rightarrow> world \<Rightarrow> arith \<times> Piecewise \<times> world" where
  "Piecewise_mul self other w =
     (if isinstance_float other \<or> isinstance_int other then
        (case Piecewise_val self w of (h, self1, w1) \<Rightarrow> (ZMul h other, self1, w1))
      else
        (case z3_Real (mul_name self) w of (aux, w1) \<Rightarrow>
           (aux, self\<lparr>self_aux_id := self_aux_id self + 1\<rparr>,
            fold (\<lambda>(c, v). on_solver (self_s self) (MySolver_add (ZImplies c (ZEq aux (ZMul v other)))))
              (self_vals self) w1)))"

text \<open>\<^verbatim>\<open>__add__(self, other)\<close>\<close>

definition Piecewise_add :: "Piecewise \<Rightarrow> arith \<Rightarrow> world \<Rightarrow> arith \<times> Piecewise \<times> world" where
  "Piecewise_add self other w =
     (case z3_Real (add_name self) w of (aux, w1) \<Rightarrow>
        (aux, self\<lparr>self_aux_id := self_aux_id self + 1\<rparr>,
         fold (\<lambda>(c, v). on_solver (self_s self) (MySolver_add (ZImplies c (ZEq aux (ZAdd v other)))))
           (self_vals self) w1))"

text \<open>
  \<^verbatim>\<open>sum([If(c, 1, 0) for (c, _) in self.vals])\<close>: Python's \<^verbatim>\<open>sum\<close> starts from the
  integer 0 and adds the elements from the left.
\<close>

definition num_sat :: "(boolref \<times> arith) list \<Rightarrow> arith" where
  "num_sat vals = foldl ZAdd (PyInt 0) (map (\<lambda>(c, v). ZIf c (PyInt 1) (PyInt 0)) vals)"

text \<open>
  \<^verbatim>\<open>verify(self, s=None)\<close>.  The last line is
  \<^verbatim>\<open>assert satisfiable != z3.unsat, f"Unable to check ... Got {satisfiable} for {str(self.vals)}"\<close>.
\<close>

definition Piecewise_verify ::
  "(boolref list \<Rightarrow> CheckSatResult) \<Rightarrow> Piecewise \<Rightarrow> ref option \<Rightarrow> world \<Rightarrow> (error + unit) \<times> world" where
  "Piecewise_verify check self s_opt w =
     (case (case s_opt of None \<Rightarrow> MySolver_new w | Some r \<Rightarrow> (r, w)) of (s, w0) \<Rightarrow>
      let n = num_sat (self_vals self);
          w1 = on_solver s MySolver_push w0;
          w2 = on_solver s (MySolver_add (ZNe n (PyInt 1))) w1
      in case MySolver_check check (solvers w2 s) of (satisfiable, sv) \<Rightarrow>
      let w3 = w2\<lparr>solvers := (solvers w2)(s := sv)\<rparr>;
          w4 = on_solver s MySolver_pop w3
      in if satisfiable \<noteq> unsat then (Inr (), w4)
         else (Inl (AssertionError (UnableToCheck satisfiable (self_vals self))), w4))"


text \<open>
  The three kinds of symbol an instance generates, and the name it gives to each; the
  auxiliary names depend on the value of \<^verbatim>\<open>self.aux_id\<close> at the time of the call.
\<close>

datatype kind = KVal | KMul | KAdd

fun gen_name :: "kind \<Rightarrow> Piecewise \<Rightarrow> string" where
  "gen_name KVal self = val_name self"
| "gen_name KMul self = mul_name self"
| "gen_name KAdd self = add_name self"

text \<open>The effect of a loop of \<^verbatim>\<open>self.s.add(...)\<close> over the pairs on the world: the constraints \<open>cs\<close> are registered, in order, with the solver behind \<open>r\<close>.\<close>

definition added :: "ref \<Rightarrow> boolref list \<Rightarrow> world \<Rightarrow> world" where
  "added r cs w =
     w\<lparr>solvers := (solvers w)(r := (solvers w r)
          \<lparr>asserted := asserted (solvers w r) @ cs, calls := calls (solvers w r) @ map CallAdd cs\<rparr>)\<rparr>"

section \<open>Concrete inputs\<close>

text \<open>
  A process that has just imported the module (\<^verbatim>\<open>Piecewise.id\<close> is 0), the same after one
  \<^verbatim>\<open>MySolver()\<close>, and an instance over the two conditions \<^verbatim>\<open>x < 1\<close> and \<^verbatim>\<open>x >= 1\<close>,
  exactly one of which holds whatever \<^verbatim>\<open>x\<close> is.
\<close>

definition fresh_world :: world where
  "fresh_world = \<lparr>Piecewise_id = 0, solvers = (\<lambda>r. MySolver_init), next_ref = 0, declared = []\<rparr>"

definition example_world :: world where
  "example_world = snd (MySolver_new fresh_world)"

definition example_vals :: "(boolref \<times> arith) list" where
  "example_vals = [(ZLt (ZReal ''x'') (PyInt 1), PyInt 10), (ZGe (ZReal ''x'') (PyInt 1), PyInt 20)]"

definition example_instance :: Piecewise where
  "example_instance = fst (Piecewise_init 0 ''p'' example_vals example_world)"

section \<open>Decimal strings\<close>

lemma str_nat_small: "n < 10 \<Longrightarrow> str_nat n = [digit_char n]"
  by (subst str_nat.simps) simp

lemma str_nat_big: "\<not> n < 10 \<Longrightarrow> str_nat n = str_nat (n div 10) @ [digit_char (n mod 10)]"
  by (subst str_nat.simps) simp

lemma digit_char_cases:
  "d < 10 \<Longrightarrow> d = 0 \<or> d = 1 \<or> d = 2 \<or> d = 3 \<or> d = 4 \<or> d = 5 \<or> d = 6 \<or> d = 7 \<or> d = 8 \<or> d = (9::nat)"
  by arith

lemma digit_char_inj: 
  assumes "a < 10" "b < 10" "digit_char a = digit_char b" shows "a = b"
  using digit_char_cases [OF assms(1)] digit_char_cases [OF assms(2)] assms(3)
  by (elim disjE) (simp_all add: digit_char_def)

lemma digit_char_not_sep:
  "digit_char d \<noteq> CHR ''_''" "digit_char d \<noteq> CHR '',''" "digit_char d \<noteq> CHR ''-''"
proof -
  have "d mod 10 < 10" by simp
  from digit_char_cases [OF this]
  show "digit_char d \<noteq> CHR ''_''" "digit_char d \<noteq> CHR '',''" "digit_char d \<noteq> CHR ''-''"
    unfolding digit_char_def by (elim disjE; simp)+
qed

lemma str_nat_nonempty: "str_nat n \<noteq> []"
proof (cases "n < 10")
  case True
  show ?thesis unfolding str_nat_small [OF True] by simp
next
  case False
  show ?thesis unfolding str_nat_big [OF False] by simp
qed

lemma str_nat_chars: "c \<in> set (str_nat n) \<Longrightarrow> c \<noteq> CHR ''_'' \<and> c \<noteq> CHR '','' \<and> c \<noteq> CHR ''-''"
proof (induction n rule: str_nat.induct)
  case (1 n)
  show ?case
  proof (cases "n < 10")
    case True
    from "1.prems" have "c = digit_char n"
      unfolding str_nat_small [OF True] by simp
    then show ?thesis
      by (simp add: digit_char_not_sep)
  next
    case False
    from "1.prems" have "c \<in> set (str_nat (n div 10)) \<or> c = digit_char (n mod 10)"
      unfolding str_nat_big [OF False] by auto
    then show ?thesis
    proof
      assume "c \<in> set (str_nat (n div 10))"
      with "1.IH" [OF False] show ?thesis .
    next
      assume "c = digit_char (n mod 10)"
      then show ?thesis
        by (simp add: digit_char_not_sep)
    qed
  qed
qed

lemma str_nat_inj: "str_nat a = str_nat b \<Longrightarrow> a = b"
proof (induction a arbitrary: b rule: str_nat.induct)
  case (1 a)
  show ?case
  proof (cases "a < 10")
    case a: True
    show ?thesis
    proof (cases "b < 10")
      case True
      from "1.prems" have "digit_char a = digit_char b"
        unfolding str_nat_small [OF a] str_nat_small [OF True] by simp
      with a True show ?thesis
        by (rule digit_char_inj)
    next
      case False
      from "1.prems" str_nat_nonempty [of "b div 10"] show ?thesis
        unfolding str_nat_small [OF a] str_nat_big [OF False] by simp
    qed
  next
    case a: False
    show ?thesis
    proof (cases "b < 10")
      case True
      from "1.prems" str_nat_nonempty [of "a div 10"] show ?thesis
        unfolding str_nat_small [OF True] str_nat_big [OF a] by simp
    next
      case False
      from "1.prems" have eq: "str_nat (a div 10) = str_nat (b div 10)"
        and d: "digit_char (a mod 10) = digit_char (b mod 10)"
        unfolding str_nat_big [OF a] str_nat_big [OF False] by simp_all
      from "1.IH" [OF a eq] have "a div 10 = b div 10" .
      moreover have "a mod 10 = b mod 10"
        by (rule digit_char_inj [OF _ _ d]) simp_all
      ultimately show ?thesis
        by (metis div_mult_mod_eq)
    qed
  qed
qed

lemma str_nat_no_minus: "str_nat n \<noteq> CHR ''-'' # cs"
proof
  assume "str_nat n = CHR ''-'' # cs"
  then have "CHR ''-'' \<in> set (str_nat n)" by simp
  from str_nat_chars [OF this] show False by simp
qed

lemma str_int_inj: "str_int i = str_int j \<Longrightarrow> i = j"
proof -
  assume eq: "str_int i = str_int j"
  consider "i < 0" "j < 0" | "i < 0" "\<not> j < 0" | "\<not> i < 0" "j < 0" | "\<not> i < 0" "\<not> j < 0"
    by blast
  then show ?thesis
  proof cases
    case 1
    with eq have "str_nat (nat (- i)) = str_nat (nat (- j))" by (simp add: str_int_def)
    from str_nat_inj [OF this] 1 show ?thesis by simp
  next
    case 2
    with eq have "str_nat (nat j) = CHR ''-'' # str_nat (nat (- i))" by (simp add: str_int_def)
    with str_nat_no_minus show ?thesis by blast
  next
    case 3
    with eq have "str_nat (nat i) = CHR ''-'' # str_nat (nat (- j))" by (simp add: str_int_def)
    with str_nat_no_minus show ?thesis by blast
  next
    case 4
    with eq have "str_nat (nat i) = str_nat (nat j)" by (simp add: str_int_def)
    from str_nat_inj [OF this] 4 show ?thesis by simp
  qed
qed

lemma str_int_chars: "c \<in> set (str_int i) \<Longrightarrow> c \<noteq> CHR ''_'' \<and> c \<noteq> CHR '',''"
  by (auto simp: str_int_def dest: str_nat_chars split: if_splits)

lemma split_at_sep:
  "c \<notin> set xs \<Longrightarrow> c \<notin> set ys \<Longrightarrow> xs @ c # r1 = ys @ c # r2 \<Longrightarrow> xs = ys \<and> r1 = r2"
proof (induction xs arbitrary: ys)
  case Nil
  then show ?case by (cases ys) auto
next
  case (Cons x xs)
  then show ?case by (cases ys) auto
qed

section \<open>Registering constraints and naming symbols\<close>

lemma added_Nil: "added r [] w = w"
  by (simp add: added_def)

lemma added_step: "added r cs (on_solver r (MySolver_add c) w) = added r (c # cs) w"
  by (simp add: added_def on_solver_def MySolver_add_def)

lemma fold_add:
  "fold (\<lambda>(c, v). on_solver r (MySolver_add (g c v))) xs w = added r (map (\<lambda>(c, v). g c v) xs) w"
proof (induction xs arbitrary: w)
  case Nil
  show ?case by (simp add: added_Nil)
next
  case (Cons x xs)
  obtain c v where x: "x = (c, v)" by (cases x)
  show ?case
    by (simp add: x Cons.IH added_step)
qed

lemma added_fields:
  "Piecewise_id (added r cs w) = Piecewise_id w"
  "next_ref (added r cs w) = next_ref w"
  "declared (added r cs w) = declared w"
  "asserted (solvers (added r cs w) r) = asserted (solvers w r) @ cs"
  "stack (solvers (added r cs w) r) = stack (solvers w r)"
  "calls (solvers (added r cs w) r) = calls (solvers w r) @ map CallAdd cs"
  "r' \<noteq> r \<Longrightarrow> solvers (added r cs w) r' = solvers w r'"
  by (simp_all add: added_def)

lemma Piecewise_val_first:
  "self_val_def self = None \<Longrightarrow>
     Piecewise_val self w =
       (ZReal (val_name self), self\<lparr>self_val_def := Some (ZReal (val_name self))\<rparr>,
        added (self_s self) (map (\<lambda>(c, v). ZImplies c (ZEq (ZReal (val_name self)) v)) (self_vals self))
          (w\<lparr>declared := declared w @ [val_name self]\<rparr>))"
  by (simp add: Piecewise_val_def z3_Real_def fold_add)

lemma Piecewise_val_cached:
  "self_val_def self = Some h \<Longrightarrow> Piecewise_val self w = (h, self, w)"
  by (simp add: Piecewise_val_def)

lemma Piecewise_mul_symbolic_eq:
  "\<not> (isinstance_float other \<or> isinstance_int other) \<Longrightarrow>
     Piecewise_mul self other w =
       (ZReal (mul_name self), self\<lparr>self_aux_id := self_aux_id self + 1\<rparr>,
        added (self_s self) (map (\<lambda>(c, v). ZImplies c (ZEq (ZReal (mul_name self)) (ZMul v other))) (self_vals self))
          (w\<lparr>declared := declared w @ [mul_name self]\<rparr>))"
  by (simp add: Piecewise_mul_def z3_Real_def fold_add)

lemma Piecewise_add_eq:
  "Piecewise_add self other w =
       (ZReal (add_name self), self\<lparr>self_aux_id := self_aux_id self + 1\<rparr>,
        added (self_s self) (map (\<lambda>(c, v). ZImplies c (ZEq (ZReal (add_name self)) (ZAdd v other))) (self_vals self))
          (w\<lparr>declared := declared w @ [add_name self]\<rparr>))"
  by (simp add: Piecewise_add_def z3_Real_def fold_add)

lemma mul_name_inj:
  assumes "mul_name p = mul_name q"
  shows "self_name p = self_name q \<and> self_id p = self_id q \<and> self_aux_id p = self_aux_id q"
proof -
  let ?c = "CHR '',''" and ?u = "CHR ''_''"
  from assms have "self_name p @ ?u # str_int (self_id p) @ ?c # str_int (self_aux_id p)
      = self_name q @ ?u # str_int (self_id q) @ ?c # str_int (self_aux_id q)"
    by (simp add: mul_name_def)
  then have "rev (str_int (self_aux_id p)) @ ?c # (rev (str_int (self_id p)) @ ?u # rev (self_name p))
      = rev (str_int (self_aux_id q)) @ ?c # (rev (str_int (self_id q)) @ ?u # rev (self_name q))"
    by (metis (no_types, lifting) append.assoc append_Cons append_Nil rev.simps(2) rev_append)
  from split_at_sep [OF _ _ this] str_int_chars
  have a: "rev (str_int (self_aux_id p)) = rev (str_int (self_aux_id q))"
    and r: "rev (str_int (self_id p)) @ ?u # rev (self_name p) = rev (str_int (self_id q)) @ ?u # rev (self_name q)"
    by auto
  from split_at_sep [OF _ _ r] str_int_chars
  have i: "rev (str_int (self_id p)) = rev (str_int (self_id q))" and n: "rev (self_name p) = rev (self_name q)"
    by auto
  from a i n show ?thesis
    by (auto dest: str_int_inj)
qed








text \<open>
  Following the spec's words (section 4.2): the membership tests of the intervals
  \<open>(-\<infinity>, b\<^sub>1)\<close>, \<open>[b\<^sub>1, b\<^sub>2)\<close>, \<dots>, \<open>[b\<^sub>k, \<infinity>)\<close> of a non-empty list of breakpoints, in order.
\<close>

definition interval_tests :: "arith \<Rightarrow> arith list \<Rightarrow> boolref list" where
  "interval_tests var breaks =
     ZLt var (hd breaks)
       # map (\<lambda>i. ZAnd (ZGe var (breaks ! i)) (ZLt var (breaks ! (i + 1)))) [0 ..< length breaks - 1]
       @ [ZGe var (last breaks)]"

section \<open>The concrete inputs, evaluated\<close>

lemma str_int_0: "str_int 0 = ''0''"
  by (simp add: str_int_def str_nat_small digit_char_def)


lemma example_instance_fields:
  "self_s example_instance = 0" "self_vals example_instance = example_vals"
  "self_id example_instance = 0" "self_name example_instance = ''p''"
  "self_aux_id example_instance = 0" "self_val_def example_instance = None"
  by (simp_all add: example_instance_def Piecewise_init_def example_world_def MySolver_new_def
      fresh_world_def)


section \<open>Breakpoint-based construction\<close>

lemma from_var_never_returns: "fst (Piecewise_from_var var breaks range_vals s w) \<noteq> Inr p"
  by (simp add: Piecewise_from_var_def split: sum.splits)


lemma getitem_nat: "i < length xs \<Longrightarrow> getitem xs (int i) = Inr (xs ! i)"
  by (simp add: getitem_def)

lemma getitem_Suc: "Suc i < length xs \<Longrightarrow> getitem xs (int i + 1) = Inr (xs ! (i + 1))"
  using getitem_nat [of "Suc i" xs] by (simp add: add.commute)

lemma getitem_last: "xs \<noteq> [] \<Longrightarrow> getitem xs (- 1) = Inr (last xs)"
proof -
  assume ne: "xs \<noteq> []"
  then have "nat (int (length xs) + - 1) = length xs - 1" "- int (length xs) \<le> - 1"
    by (cases xs; simp)+
  with ne show ?thesis
    by (simp add: getitem_def last_conv_nth)
qed

lemma getitem_hd: "xs \<noteq> [] \<Longrightarrow> getitem xs 0 = Inr (hd xs)"
  by (cases xs) (simp_all add: getitem_def)

lemma from_var_loop_ok:
  "\<forall>i \<in> set is. Suc i < length breaks \<Longrightarrow> length range_vals = length breaks + 1 \<Longrightarrow>
     from_var_loop var breaks range_vals is vals =
       Inr (vals @ map (\<lambda>i. (ZAnd (ZGe var (breaks ! i)) (ZLt var (breaks ! (i + 1))), range_vals ! (i + 1))) is)"
proof (induction "is" arbitrary: vals)
  case Nil
  show ?case by simp
next
  case (Cons i "is")
  from Cons.prems have i: "i < length breaks" "Suc i < length breaks" "Suc i < length range_vals"
    by simp_all
  from Cons.prems have rest: "\<forall>i \<in> set is. Suc i < length breaks"
    by simp
  show ?case
    by (simp add: getitem_nat [OF i(1)] getitem_Suc [OF i(2)] getitem_Suc [OF i(3)]
        Cons.IH [OF rest Cons.prems(2)])
qed

lemma from_var_vals_interval_tests:
  assumes "breaks \<noteq> []" and "length range_vals = length breaks + 1"
  shows "from_var_vals var breaks range_vals =
     Inr (List.map_filter (\<lambda>(c, v). map_option (Pair c) v) (zip (interval_tests var breaks) range_vals))"
proof -
  from assms have rv: "range_vals \<noteq> []" by auto
  have idx: "\<forall>i \<in> set [0 ..< length breaks - 1]. Suc i < length breaks"
    by auto
  have z: "zip (interval_tests var breaks) range_vals =
      (ZLt var (hd breaks), hd range_vals)
        # map (\<lambda>i. (ZAnd (ZGe var (breaks ! i)) (ZLt var (breaks ! (i + 1))), range_vals ! (i + 1)))
            [0 ..< length breaks - 1]
        @ [(ZGe var (last breaks), last range_vals)]"
  proof (rule nth_equalityI)
    show "length (zip (interval_tests var breaks) range_vals) = length ((ZLt var (hd breaks), hd range_vals)
        # map (\<lambda>i. (ZAnd (ZGe var (breaks ! i)) (ZLt var (breaks ! (i + 1))), range_vals ! (i + 1)))
            [0 ..< length breaks - 1]
        @ [(ZGe var (last breaks), last range_vals)])"
      using assms by (simp add: interval_tests_def)
  next
    fix i assume "i < length (zip (interval_tests var breaks) range_vals)"
    with assms have i: "i < length breaks + 1"
      by (simp add: interval_tests_def)
    consider "i = 0" | "0 < i" "i < length breaks" | "i = length breaks"
      using i by linarith
    then show "zip (interval_tests var breaks) range_vals ! i = ((ZLt var (hd breaks), hd range_vals)
        # map (\<lambda>i. (ZAnd (ZGe var (breaks ! i)) (ZLt var (breaks ! (i + 1))), range_vals ! (i + 1)))
            [0 ..< length breaks - 1]
        @ [(ZGe var (last breaks), last range_vals)]) ! i"
    proof cases
      case 1
      with assms rv show ?thesis
        by (simp add: interval_tests_def hd_conv_nth)
    next
      case 2
      with assms show ?thesis
        by (auto simp: interval_tests_def nth_append nth_Cons')
    next
      case 3
      with assms rv show ?thesis
        by (simp add: interval_tests_def nth_append nth_Cons' last_conv_nth)
    qed
  qed
  have "from_var_vals var breaks range_vals =
      Inr (List.map_filter (\<lambda>(c, v). map_option (Pair c) v)
        (([(ZLt var (hd breaks), hd range_vals)]
          @ map (\<lambda>i. (ZAnd (ZGe var (breaks ! i)) (ZLt var (breaks ! (i + 1))), range_vals ! (i + 1)))
              [0 ..< length breaks - 1])
         @ [(ZGe var (last breaks), last range_vals)]))"
    unfolding from_var_vals_def getitem_hd [OF assms(1)] getitem_hd [OF rv]
      getitem_last [OF assms(1)] getitem_last [OF rv] from_var_loop_ok [OF idx assms(2)]
    by (simp only: assms(2) simp_thms if_False sum.case)
  then show ?thesis
    by (simp only: z append_Cons append_Nil)
qed

text \<open>
  C8: a call to \<^verbatim>\<open>from_var\<close> whose \<^verbatim>\<open>range_vals\<close> is not one longer than \<^verbatim>\<open>breaks\<close>
  raises \<^verbatim>\<open>AssertionError\<close> (the assertion on the first line), returns no instance and
  leaves the whole state of the process, the backend included, as it was.
\<close>

theorem from_var_shape_mismatch:
  "length range_vals \<noteq> length breaks + 1 \<Longrightarrow>
     Piecewise_from_var var breaks range_vals s w = (Inl (AssertionError NoMessage), w)"
  by (simp add: Piecewise_from_var_def from_var_vals_def)

theorem from_var_shape_mismatch_witness:
  "length [Some (PyInt 1), Some (PyInt 2)] \<noteq> length [PyInt 5, PyInt 6] + 1 \<and>
   Piecewise_from_var (ZReal ''x'') [PyInt 5, PyInt 6] [Some (PyInt 1), Some (PyInt 2)] 0 example_world
     = (Inl (AssertionError NoMessage), example_world)"
  using from_var_shape_mismatch
    [of "[Some (PyInt 1), Some (PyInt 2)]" "[PyInt 5, PyInt 6]" "ZReal ''x''" 0 example_world]
  by simp

text \<open>
  C10: with an empty list of breakpoints \<^verbatim>\<open>from_var\<close> never returns an instance.  One
  candidate value passes the length assertion, and then \<^verbatim>\<open>breaks[0]\<close> raises
  \<^verbatim>\<open>IndexError\<close>; any other number of candidate values fails the assertion.  So a call
  that is to return needs at least one breakpoint.
\<close>

theorem from_var_no_breaks:
  "Piecewise_from_var var [] range_vals s w =
     (if length range_vals = 1 then (Inl IndexError, w) else (Inl (AssertionError NoMessage), w))"
  by (simp add: Piecewise_from_var_def from_var_vals_def getitem_def)

section \<open>Lazy materialization\<close>

text \<open>
  C3: on an instance that has not been materialized, \<^verbatim>\<open>val()\<close> declares the symbol
  \<^verbatim>\<open>auxPiecewiseVal_<id>\<close>, registers with the instance's solver one implication
  \<^verbatim>\<open>c => handle == v\<close> per pair (so the number of constraints grows by the number of
  pairs), caches the handle and returns it.  Called again, it returns the same handle and
  leaves the instance and the whole world, the solver's constraints included, as they are.
\<close>

theorem val_materializes_once:
  assumes "self_val_def self = None" and "Piecewise_val self w = (h, self1, w1)"
  shows "h = ZReal (''auxPiecewiseVal_'' @ str_int (self_id self))
       \<and> self1 = self\<lparr>self_val_def := Some h\<rparr>
       \<and> declared w1 = declared w @ [''auxPiecewiseVal_'' @ str_int (self_id self)]
       \<and> asserted (solvers w1 (self_s self)) =
           asserted (solvers w (self_s self)) @ map (\<lambda>(c, v). ZImplies c (ZEq h v)) (self_vals self)
       \<and> length (asserted (solvers w1 (self_s self))) =
           length (asserted (solvers w (self_s self))) + length (self_vals self)
       \<and> Piecewise_val self1 w1 = (h, self1, w1)"
proof -
  from assms have h: "h = ZReal (val_name self)"
    and s1: "self1 = self\<lparr>self_val_def := Some h\<rparr>"
    and w1: "w1 = added (self_s self) (map (\<lambda>(c, v). ZImplies c (ZEq h v)) (self_vals self))
          (w\<lparr>declared := declared w @ [val_name self]\<rparr>)"
    by (auto simp: Piecewise_val_first)
  have "Piecewise_val self1 w1 = (h, self1, w1)"
    by (rule Piecewise_val_cached) (simp add: s1)
  with h s1 show ?thesis
    by (simp add: w1 added_fields val_name_def)
qed

theorem val_materializes_once_witness:
  "self_val_def example_instance = None
   \<and> fst (Piecewise_val example_instance example_world) = ZReal ''auxPiecewiseVal_0''
   \<and> length (asserted (solvers (snd (snd (Piecewise_val example_instance example_world))) 0)) = 2
   \<and> Piecewise_val (fst (snd (Piecewise_val example_instance example_world)))
        (snd (snd (Piecewise_val example_instance example_world)))
      = Piecewise_val example_instance example_world"
proof -
  obtain h self1 w1 where run: "Piecewise_val example_instance example_world = (h, self1, w1)"
    by (metis prod_cases3)
  have fresh: "self_val_def example_instance = None"
    by (simp add: example_instance_def Piecewise_init_def)
  have facts: "self_id example_instance = 0" "self_s example_instance = 0"
    "self_vals example_instance = example_vals" "asserted (solvers example_world 0) = []"
    by (simp_all add: example_instance_def Piecewise_init_def example_world_def MySolver_new_def
        fresh_world_def MySolver_init_def)
  have zero: "str_int 0 = ''0''"
    by (simp add: str_int_def str_nat_small digit_char_def)
  from val_materializes_once [OF fresh run] fresh show ?thesis
    by (auto simp: run facts zero example_vals_def)
qed

section \<open>Arithmetic\<close>

text \<open>
  C5: multiplication by an operand that is neither a Python float nor a Python int
  declares the auxiliary symbol \<^verbatim>\<open>auxPiecewiseMul_<name>_<id>,<aux_id>\<close>, adds one to the
  instance's auxiliary counter, registers with the instance's solver one implication
  \<^verbatim>\<open>c => aux == v * other\<close> per pair and returns the auxiliary handle.  A second such
  multiplication on the instance returns a different symbol.
\<close>

theorem mul_symbolic_fresh_auxiliary:
  assumes "\<not> (isinstance_float other \<or> isinstance_int other)"
    and "\<not> (isinstance_float other' \<or> isinstance_int other')"
    and "Piecewise_mul self other w = (aux, self1, w1)"
    and "Piecewise_mul self1 other' w1 = (aux', self2, w2)"
  shows "aux = ZReal (''auxPiecewiseMul_'' @ self_name self @ ''_'' @ str_int (self_id self)
                        @ '','' @ str_int (self_aux_id self))
       \<and> self1 = self\<lparr>self_aux_id := self_aux_id self + 1\<rparr>
       \<and> declared w1 = declared w @ [''auxPiecewiseMul_'' @ self_name self @ ''_'' @ str_int (self_id self)
                        @ '','' @ str_int (self_aux_id self)]
       \<and> asserted (solvers w1 (self_s self)) =
           asserted (solvers w (self_s self))
             @ map (\<lambda>(c, v). ZImplies c (ZEq aux (ZMul v other))) (self_vals self)
       \<and> aux' \<noteq> aux"
proof -
  from assms(1,3) have aux: "aux = ZReal (mul_name self)"
    and s1: "self1 = self\<lparr>self_aux_id := self_aux_id self + 1\<rparr>"
    and w1: "w1 = added (self_s self)
        (map (\<lambda>(c, v). ZImplies c (ZEq aux (ZMul v other))) (self_vals self))
        (w\<lparr>declared := declared w @ [mul_name self]\<rparr>)"
    by (auto simp: Piecewise_mul_symbolic_eq)
  from assms(2,4) have aux': "aux' = ZReal (mul_name self1)"
    by (auto simp: Piecewise_mul_symbolic_eq)
  have "mul_name self1 \<noteq> mul_name self"
  proof
    assume "mul_name self1 = mul_name self"
    from mul_name_inj [OF this] show False by (simp add: s1)
  qed
  with aux aux' s1 show ?thesis
    by (simp add: w1 added_fields mul_name_def)
qed

theorem mul_symbolic_fresh_auxiliary_witness:
  "\<not> (isinstance_float (ZReal ''y'') \<or> isinstance_int (ZReal ''y''))
   \<and> fst (Piecewise_mul example_instance (ZReal ''y'') example_world) = ZReal ''auxPiecewiseMul_p_0,0''
   \<and> fst (Piecewise_mul (fst (snd (Piecewise_mul example_instance (ZReal ''y'') example_world)))
            (ZReal ''y'') (snd (snd (Piecewise_mul example_instance (ZReal ''y'') example_world))))
       \<noteq> ZReal ''auxPiecewiseMul_p_0,0''"
proof -
  obtain aux self1 w1 where run1: "Piecewise_mul example_instance (ZReal ''y'') example_world = (aux, self1, w1)"
    by (metis prod_cases3)
  obtain aux' self2 w2 where run2: "Piecewise_mul self1 (ZReal ''y'') w1 = (aux', self2, w2)"
    by (metis prod_cases3)
  have sym: "\<not> (isinstance_float (ZReal ''y'') \<or> isinstance_int (ZReal ''y''))"
    by simp
  note facts = mul_symbolic_fresh_auxiliary [OF sym sym run1 run2]
  from facts have "aux = ZReal ''auxPiecewiseMul_p_0,0''"
    by (simp add: example_instance_fields str_int_0)
  moreover from facts have "aux' \<noteq> aux"
    by blast
  ultimately show ?thesis using sym
    unfolding run1 snd_conv fst_conv run2 by simp
qed



text \<open>
  C6 as stated fails: multiplying a not yet materialized instance by the literal 2 runs
  \<^verbatim>\<open>val()\<close>, which declares the symbol \<^verbatim>\<open>auxPiecewiseVal_0\<close> with the backend.
\<close>

theorem mul_literal_declares_symbol:
  "isinstance_int (PyInt 2)
   \<and> declared (snd (snd (Piecewise_mul example_instance (PyInt 2) example_world)))
       = declared example_world @ [''auxPiecewiseVal_0'']
   \<and> declared (snd (snd (Piecewise_mul example_instance (PyInt 2) example_world)))
       \<noteq> declared example_world"
  by (simp add: Piecewise_mul_def Piecewise_val_first example_instance_fields added_fields
      val_name_def str_int_0)

text \<open>
  C6, amended: multiplication by a Python number returns the handle of \<^verbatim>\<open>val()\<close> times
  that number, and its effect on the instance and on the world is exactly that of the call
  to \<^verbatim>\<open>val()\<close>.  The auxiliary counter is unchanged, no auxiliary symbol is declared,
  and the only symbol that can be declared is the materialized value, when the instance
  has not been materialized before.
\<close>

theorem mul_literal_is_val_times:
  assumes "isinstance_float k \<or> isinstance_int k"
    and "Piecewise_mul self k w = (r, self1, w1)"
  shows "(\<exists>h. Piecewise_val self w = (h, self1, w1) \<and> r = ZMul h k)
       \<and> self_aux_id self1 = self_aux_id self
       \<and> declared w1 = declared w @ (case self_val_def self of None \<Rightarrow> [val_name self] | Some h \<Rightarrow> [])"
proof -
  obtain h s' w' where v: "Piecewise_val self w = (h, s', w')"
    by (metis prod_cases3)
  with assms have r: "r = ZMul h k" "self1 = s'" "w1 = w'"
    by (auto simp: Piecewise_mul_def)
  show ?thesis
  proof (cases "self_val_def self")
    case None
    with v r show ?thesis
      by (auto simp: Piecewise_val_first added_fields)
  next
    case (Some h0)
    with v r show ?thesis
      by (auto simp: Piecewise_val_cached)
  qed
qed

theorem mul_literal_is_val_times_witness:
  "(isinstance_float (PyInt 2) \<or> isinstance_int (PyInt 2))
   \<and> fst (Piecewise_mul example_instance (PyInt 2) example_world) = ZMul (ZReal ''auxPiecewiseVal_0'') (PyInt 2)
   \<and> self_aux_id (fst (snd (Piecewise_mul example_instance (PyInt 2) example_world))) = 0"
proof -
  obtain r self1 w1 where run: "Piecewise_mul example_instance (PyInt 2) example_world = (r, self1, w1)"
    by (metis prod_cases3)
  have lit: "isinstance_float (PyInt 2) \<or> isinstance_int (PyInt 2)"
    by simp
  from mul_literal_is_val_times [OF lit run] show ?thesis
    by (auto simp: run example_instance_fields Piecewise_val_first val_name_def str_int_0)
qed

text \<open>
  C2: \<^verbatim>\<open>from_var\<close> computes the list the claim describes (\<open>from_var_vals_interval_tests\<close>
  above: the interval tests zipped with the candidate values, the pairs without a value
  dropped), and then calls \<^verbatim>\<open>Piecewise(s, vals)\<close> with two arguments where
  \<^verbatim>\<open>__init__\<close> takes three, so that the call raises \<^verbatim>\<open>TypeError\<close> and no instance is
  returned.  Here for the breakpoints 1, 2, 3 and four candidate values, the second absent.
\<close>

theorem from_var_raises_TypeError:
  "from_var_vals (ZReal ''x'') [PyInt 1, PyInt 2, PyInt 3]
       [Some (PyInt 10), None, Some (PyInt 30), Some (PyInt 40)]
     = Inr [(ZLt (ZReal ''x'') (PyInt 1), PyInt 10),
            (ZAnd (ZGe (ZReal ''x'') (PyInt 2)) (ZLt (ZReal ''x'') (PyInt 3)), PyInt 30),
            (ZGe (ZReal ''x'') (PyInt 3), PyInt 40)]
   \<and> Piecewise_from_var (ZReal ''x'') [PyInt 1, PyInt 2, PyInt 3]
       [Some (PyInt 10), None, Some (PyInt 30), Some (PyInt 40)] 0 example_world
     = (Inl TypeError, example_world)"
proof -
  have up: "[0 ..< length [PyInt 1, PyInt 2, PyInt 3] - 1] = [0, 1]"
    by (simp add: upt_rec)
  have vals: "from_var_vals (ZReal ''x'') [PyInt 1, PyInt 2, PyInt 3]
       [Some (PyInt 10), None, Some (PyInt 30), Some (PyInt 40)]
     = Inr [(ZLt (ZReal ''x'') (PyInt 1), PyInt 10),
            (ZAnd (ZGe (ZReal ''x'') (PyInt 2)) (ZLt (ZReal ''x'') (PyInt 3)), PyInt 30),
            (ZGe (ZReal ''x'') (PyInt 3), PyInt 40)]"
    unfolding from_var_vals_def up by (simp add: getitem_def List.map_filter_def)
  show ?thesis
    by (simp add: vals Piecewise_from_var_def)
qed

section \<open>Verification\<close>

lemma aval_foldl_ZAdd:
  "aval \<rho> \<beta> (foldl ZAdd a (map (\<lambda>(c, v). ZIf c (PyInt 1) (PyInt 0)) vals)) =
     aval \<rho> \<beta> a + real (length (filter (\<lambda>(c, v). bval \<rho> \<beta> c) vals))"
  by (induction vals arbitrary: a) (auto split: prod.splits)

lemma aval_num_sat:
  "aval \<rho> \<beta> (num_sat vals) = real (length (filter (\<lambda>(c, v). bval \<rho> \<beta> c) vals))"
  by (simp add: num_sat_def aval_foldl_ZAdd)

lemma verify_unfold:
  assumes "(case s_opt of None \<Rightarrow> MySolver_new w | Some r \<Rightarrow> (r, w)) = (s, w0)"
  shows "Piecewise_verify check self s_opt w =
    (if check (asserted (solvers w0 s) @ [ZNe (num_sat (self_vals self)) (PyInt 1)]) \<noteq> unsat
     then Inr ()
     else Inl (AssertionError (UnableToCheck unsat (self_vals self))),
     w0\<lparr>solvers := (solvers w0)(s := (solvers w0 s)
          \<lparr>calls := calls (solvers w0 s)
             @ [CallPush, CallAdd (ZNe (num_sat (self_vals self)) (PyInt 1)), CallCheck, CallPop]\<rparr>)\<rparr>)"
  by (simp add: Piecewise_verify_def assms Let_def on_solver_def MySolver_push_def MySolver_add_def
      MySolver_check_def MySolver_pop_def)

text \<open>
  C9: the term \<^verbatim>\<open>num_sat\<close> denotes the number of conditions that hold; on the proof
  context (the solver passed in, or a new one) \<^verbatim>\<open>verify\<close> calls \<^verbatim>\<open>push\<close>,
  \<^verbatim>\<open>add(num_sat != 1)\<close>, \<^verbatim>\<open>check\<close> and \<^verbatim>\<open>pop\<close>, in this order and nothing else; and
  whatever the outcome, the context ends with the scope stack and the constraints it had,
  and no other solver is touched.
\<close>

theorem verify_push_check_pop:
  assumes "(case s_opt of None \<Rightarrow> MySolver_new w | Some r \<Rightarrow> (r, w)) = (s, w0)"
    and "Piecewise_verify check self s_opt w = (outcome, w')"
  shows "calls (solvers w' s) =
           calls (solvers w0 s)
             @ [CallPush, CallAdd (ZNe (num_sat (self_vals self)) (PyInt 1)), CallCheck, CallPop]
       \<and> aval \<rho> \<beta> (num_sat (self_vals self))
           = real (length (filter (\<lambda>(c, v). bval \<rho> \<beta> c) (self_vals self)))
       \<and> stack (solvers w' s) = stack (solvers w0 s)
       \<and> asserted (solvers w' s) = asserted (solvers w0 s)
       \<and> (\<forall>r. r \<noteq> s \<longrightarrow> solvers w' r = solvers w0 r)"
proof -
  from assms(2) have "w' = w0\<lparr>solvers := (solvers w0)(s := (solvers w0 s)
          \<lparr>calls := calls (solvers w0 s)
             @ [CallPush, CallAdd (ZNe (num_sat (self_vals self)) (PyInt 1)), CallCheck, CallPop]\<rparr>)\<rparr>"
    unfolding verify_unfold [OF assms(1)] by simp
  then show ?thesis
    by (simp add: aval_num_sat)
qed

theorem verify_push_check_pop_witness:
  "fst (Piecewise_verify (\<lambda>cs. sat) example_instance (Some 0) example_world) = Inr ()
   \<and> stack (solvers (snd (Piecewise_verify (\<lambda>cs. sat) example_instance (Some 0) example_world)) 0)
       = stack (solvers example_world 0)
   \<and> fst (Piecewise_verify (\<lambda>cs. unsat) example_instance (Some 0) example_world)
       = Inl (AssertionError (UnableToCheck unsat example_vals))
   \<and> stack (solvers (snd (Piecewise_verify (\<lambda>cs. unsat) example_instance (Some 0) example_world)) 0)
       = stack (solvers example_world 0)"
proof -
  have ctx: "(case Some 0 of None \<Rightarrow> MySolver_new example_world | Some r \<Rightarrow> (r, example_world))
      = (0, example_world)"
    by simp
  obtain o1 w1 where run1: "Piecewise_verify (\<lambda>cs. sat) example_instance (Some 0) example_world = (o1, w1)"
    by (metis prod.exhaust)
  obtain o2 w2 where run2: "Piecewise_verify (\<lambda>cs. unsat) example_instance (Some 0) example_world = (o2, w2)"
    by (metis prod.exhaust)
  from run1 have "o1 = Inr ()"
    unfolding verify_unfold [OF ctx] by simp
  moreover from run2 have "o2 = Inl (AssertionError (UnableToCheck unsat example_vals))"
    unfolding verify_unfold [OF ctx] by (simp add: example_instance_fields)
  moreover from verify_push_check_pop [OF ctx run1] have "stack (solvers w1 0) = stack (solvers example_world 0)"
    by blast
  moreover from verify_push_check_pop [OF ctx run2] have "stack (solvers w2 0) = stack (solvers example_world 0)"
    by blast
  ultimately show ?thesis
    by (simp add: run1 run2)
qed

lemma example_vals_exactly_one:
  "\<not> bval \<rho> \<beta> (ZNe (num_sat example_vals) (PyInt 1))"
  by (simp add: aval_num_sat example_vals_def)

text \<open>
  C1: the assertion of \<^verbatim>\<open>verify\<close> is \<^verbatim>\<open>satisfiable != z3.unsat\<close>.  On the example
  instance, whose conditions are such that no assignment makes their count differ from
  one, a backend that answers \<^verbatim>\<open>unsat\<close> makes \<^verbatim>\<open>verify\<close> raise \<^verbatim>\<open>AssertionError\<close>,
  and one that answers \<^verbatim>\<open>sat\<close> or \<^verbatim>\<open>unknown\<close> makes it return normally.
\<close>

theorem verify_fails_on_unsat:
  "fst (Piecewise_verify (\<lambda>cs. unsat) example_instance None example_world)
     = Inl (AssertionError (UnableToCheck unsat example_vals))
   \<and> fst (Piecewise_verify (\<lambda>cs. sat) example_instance None example_world) = Inr ()
   \<and> fst (Piecewise_verify (\<lambda>cs. unknown) example_instance None example_world) = Inr ()
   \<and> (\<forall>\<rho> \<beta>. \<not> bval \<rho> \<beta> (ZNe (num_sat example_vals) (PyInt 1)))"
proof -
  obtain s w0 where ctx: "(case None of None \<Rightarrow> MySolver_new example_world | Some r \<Rightarrow> (r, example_world))
      = (s, w0)"
    by (metis prod.exhaust)
  have "\<forall>\<rho> \<beta>. \<not> bval \<rho> \<beta> (ZNe (num_sat example_vals) (PyInt 1))"
    using example_vals_exactly_one by blast
  then show ?thesis
    unfolding verify_unfold [OF ctx] by (simp add: example_instance_fields del: bval.simps)
qed

section \<open>Unique names\<close>




text \<open>
  The methods never change \<^verbatim>\<open>self.id\<close> or \<^verbatim>\<open>self.name\<close>, and the only symbols they
  declare carry the names \<open>gen_name\<close> gives for the instance as it is at the call.
\<close>

lemma val_keeps_identity:
  "Piecewise_val self w = (h, self', w') \<Longrightarrow>
     self_id self' = self_id self \<and> self_name self' = self_name self
     \<and> (declared w' = declared w \<or> declared w' = declared w @ [gen_name KVal self])"
  by (cases "self_val_def self") (auto simp: Piecewise_val_first Piecewise_val_cached added_fields)

lemma add_keeps_identity:
  "Piecewise_add self other w = (h, self', w') \<Longrightarrow>
     self_id self' = self_id self \<and> self_name self' = self_name self
     \<and> declared w' = declared w @ [gen_name KAdd self]"
  by (auto simp: Piecewise_add_eq added_fields)

lemma mul_keeps_identity:
  assumes "Piecewise_mul self other w = (h, self', w')"
  shows "self_id self' = self_id self \<and> self_name self' = self_name self
     \<and> (declared w' = declared w \<or> declared w' = declared w @ [gen_name KVal self]
          \<or> declared w' = declared w @ [gen_name KMul self])"
proof (cases "isinstance_float other \<or> isinstance_int other")
  case True
  obtain h0 where "Piecewise_val self w = (h0, self', w')"
    using assms True by (auto simp: Piecewise_mul_def split: prod.splits)
  from val_keeps_identity [OF this] show ?thesis
    by blast
next
  case False
  from assms show ?thesis
    unfolding Piecewise_mul_symbolic_eq [OF False] by (auto simp: added_fields)
qed



end
